theory Spec2Isabelle
  imports Main
begin

section \<open>Documents, the store and HTTP responses\<close>

text \<open>
  A record-keeping service for zoos, animals and users over HTTP. app.js mounts the
  routers of routes/zooRoutes.js, routes/animalRoutes.js and routes/authRoutes.js; the
  handlers of controllers/ are mounted by none of them. A handler is a function from
  the store and the parsed request to a response and the store it leaves; the handlers
  behind \<^verbatim>\<open>authMiddleware\<close> are modelled from the point where the middleware has let the
  request through.

  The service keeps three collections of documents (users, zoos, animals) in a document
  store. An identifier (a driver-generated ObjectId) is opaque; it is a natural number
  here. A collection is the list of its documents in insertion order, which is the order
  an unsorted \<^verbatim>\<open>find\<close> returns them in.
\<close>

type_synonym oid = nat

text \<open>models/animalModel.js: name and species are required strings, zoo is optional.\<close>

record animal =
  animal_id :: oid
  animal_name :: string
  animal_species :: string
  animal_zoo :: "oid option"

text \<open>models/zooModel.js: name and location are required strings, animals is an array of
  animal identifiers.\<close>

record zoo =
  zoo_id :: oid
  zoo_name :: string
  zoo_location :: string
  zoo_animals :: "oid list"

text \<open>models/userModel.js (the posts sub-documents play no part in any handler).\<close>

record user =
  user_id :: oid
  user_username :: string
  user_password :: string

record store =
  Animals :: "animal list"
  Zoos :: "zoo list"
  Users :: "user list"

text \<open>The errors a handler can catch. Only their kind is kept.\<close>

datatype js_error = TypeError | ValidationError | DuplicateKeyError | IllegalArguments
  | JsonWebTokenError | CastError | DocumentNotFoundError

text \<open>What \<^verbatim>\<open>populate('zoo', 'name location')\<close> puts in place of an animal's zoo
  reference: the projection of the referenced zoo, or null when it does not exist.\<close>

record zoo_projection =
  zp_id :: oid
  zp_name :: string
  zp_location :: string

record populated_animal =
  pa_id :: oid
  pa_name :: string
  pa_species :: string
  pa_zoo :: "zoo_projection option"

text \<open>
  A response is a status code and a JSON body. \<open>Message m\<close> is \<^verbatim>\<open>{message: m}\<close>;
  \<open>Failure m\<close> is \<^verbatim>\<open>{message: m, error: error.message}\<close> (the diagnostic text of the
  caught error is not modelled); \<open>ErrorMessage e\<close> is \<^verbatim>\<open>{message: err.message}\<close>, the
  body the controllers build from the caught error itself.
\<close>

datatype payload = Message string | Failure string | ErrorMessage js_error
  | AnimalDoc animal | ZooDoc zoo | AnimalList "populated_animal list" | TokenBody string

datatype response = Response nat payload

subsection \<open>Message texts\<close>

text \<open>The messages are the source's literals. A letter outside ASCII is written as its
  code unit: 0xF3 is o with an acute accent, 0xE1 is a with an acute accent, 0xF1 is n
  with a tilde.\<close>

definition msg_zoo_no_encontrado :: string where
  "msg_zoo_no_encontrado = ''Zool'' @ [CHR 0xF3] @ ''gico no encontrado''"

definition msg_zoologico_no_encontrado :: string where
  "msg_zoologico_no_encontrado = ''zoologico no encontrado''"

definition msg_animal_no_encontrado :: string where
  "msg_animal_no_encontrado = ''Animal no encontrado''"

definition msg_animal_eliminado_exitosamente :: string where
  "msg_animal_eliminado_exitosamente = ''Animal eliminado exitosamente''"

definition msg_animal_eliminado :: string where
  "msg_animal_eliminado = ''Animal eliminado''"

definition msg_error_crear_animal :: string where
  "msg_error_crear_animal = ''Error al crear el animal''"

definition msg_faltan_campos :: string where
  "msg_faltan_campos = ''Faltan campos requeridos: name y species''"



definition msg_animales_no_existen :: string where
  "msg_animales_no_existen =
     ''Uno o m'' @ [CHR 0xE1] @ ''s animales no existen en la base de datos''"

definition msg_error_crear_zoo :: string where
  "msg_error_crear_zoo = ''Error al crear el zool'' @ [CHR 0xF3] @ ''gico''"

definition msg_zoo_eliminado :: string where
  "msg_zoo_eliminado = ''Zool'' @ [CHR 0xF3] @ ''gico eliminado exitosamente''"

definition msg_autenticacion_requerida :: string where
  "msg_autenticacion_requerida = ''Autenticaci'' @ [CHR 0xF3] @ ''n requerida''"

definition msg_token_invalido :: string where
  "msg_token_invalido = ''Token inv'' @ [CHR 0xE1] @ ''lido''"

definition msg_usuario_no_encontrado :: string where
  "msg_usuario_no_encontrado = ''Usuario no encontrado''"

definition msg_error_registrar :: string where
  "msg_error_registrar = ''Error al registrar el usuario''"

definition msg_contrasena_actual_incorrecta :: string where
  "msg_contrasena_actual_incorrecta = ''Contrase'' @ [CHR 0xF1] @ ''a actual incorrecta''"

definition msg_contrasena_cambiada :: string where
  "msg_contrasena_cambiada = ''Contrase'' @ [CHR 0xF1] @ ''a cambiada exitosamente''"

definition msg_error_cambiar :: string where
  "msg_error_cambiar = ''Error al cambiar la contrase'' @ [CHR 0xF1] @ ''a''"

definition msg_contrasena_restablecida :: string where
  "msg_contrasena_restablecida = ''Contrase'' @ [CHR 0xF1] @ ''a restablecida exitosamente''"

definition msg_error_restablecer :: string where
  "msg_error_restablecer = ''Error al restablecer la contrase'' @ [CHR 0xF1] @ ''a''"

definition msg_username_password_required :: string where
  "msg_username_password_required = ''Username and password are required''"

definition msg_invalid_credentials :: string where
  "msg_invalid_credentials = ''Invalid credentials''"

definition msg_server_error :: string where
  "msg_server_error = ''Server error''"

subsection \<open>Store primitives\<close>

text \<open>\<^verbatim>\<open>Model.findById(id)\<close>: the document with that identifier, or null. An undefined
  identifier finds nothing.\<close>

definition findById :: "('d \<Rightarrow> oid) \<Rightarrow> 'd list \<Rightarrow> oid option \<Rightarrow> 'd option" where
  "findById ident docs i =
     (case i of None \<Rightarrow> None | Some k \<Rightarrow> find (\<lambda>d. ident d = k) docs)"

text \<open>The schema's \<^verbatim>\<open>required: true\<close> on a string path: the value must be present and
  not the empty string. \<open>falsy\<close> is JavaScript's \<^verbatim>\<open>!v\<close> for a value that is either
  undefined or a string.\<close>

definition required :: "string option \<Rightarrow> bool" where
  "required v = (case v of None \<Rightarrow> False | Some s \<Rightarrow> s \<noteq> [])"

definition falsy :: "string option \<Rightarrow> bool" where
  "falsy v = (case v of None \<Rightarrow> True | Some s \<Rightarrow> s = [])"

text \<open>\<^verbatim>\<open>new Animal({name, species, zoo}).save()\<close>: validation against the schema, then
  insertion. The identifier of the new document comes from the driver.\<close>

definition save_new_animal ::
  "oid \<Rightarrow> string option \<Rightarrow> string option \<Rightarrow> oid option \<Rightarrow> store \<Rightarrow> js_error + animal \<times> store" where
  "save_new_animal newId name species z st =
     (case name of
        None \<Rightarrow> Inl ValidationError
      | Some n \<Rightarrow>
          (case species of
             None \<Rightarrow> Inl ValidationError
           | Some s \<Rightarrow>
               if n = [] then Inl ValidationError
               else if s = [] then Inl ValidationError
               else
                 (let a = \<lparr>animal_id = newId, animal_name = n, animal_species = s, animal_zoo = z\<rparr>
                  in Inr (a, st\<lparr>Animals := Animals st @ [a]\<rparr>))))"

text \<open>\<^verbatim>\<open>new Zoo({name, location, animals}).save()\<close>.\<close>

definition save_new_zoo ::
  "oid \<Rightarrow> string option \<Rightarrow> string option \<Rightarrow> oid list \<Rightarrow> store \<Rightarrow> js_error + zoo \<times> store" where
  "save_new_zoo newId name loc ids st =
     (case name of
        None \<Rightarrow> Inl ValidationError
      | Some n \<Rightarrow>
          (case loc of
             None \<Rightarrow> Inl ValidationError
           | Some l \<Rightarrow>
               if n = [] then Inl ValidationError
               else if l = [] then Inl ValidationError
               else
                 (let z = \<lparr>zoo_id = newId, zoo_name = n, zoo_location = l, zoo_animals = ids\<rparr>
                  in Inr (z, st\<lparr>Zoos := Zoos st @ [z]\<rparr>))))"

text \<open>\<^verbatim>\<open>zoo.save()\<close> on a document that was fetched and changed: the required paths are
  validated again, then the stored document with the same identifier is replaced.\<close>

definition save_zoo :: "zoo \<Rightarrow> store \<Rightarrow> js_error + store" where
  "save_zoo z st =
     (if zoo_name z = [] then Inl ValidationError
      else if zoo_location z = [] then Inl ValidationError
      else Inr (st\<lparr>Zoos := map (\<lambda>d. if zoo_id d = zoo_id z then z else d) (Zoos st)\<rparr>))"

text \<open>\<^verbatim>\<open>Animal.findByIdAndDelete(id)\<close>.\<close>

definition delete_animal :: "oid \<Rightarrow> store \<Rightarrow> store" where
  "delete_animal i st = st\<lparr>Animals := filter (\<lambda>a. animal_id a \<noteq> i) (Animals st)\<rparr>"


section \<open>Habitat graph: the animal routes (routes/animalRoutes.js)\<close>

text \<open>\<^verbatim>\<open>router.post('/no-zoo')\<close>: an animal with no zoo reference.\<close>

definition post_animal_no_zoo ::
  "oid \<Rightarrow> store \<Rightarrow> string option \<Rightarrow> string option \<Rightarrow> response \<times> store" where
  "post_animal_no_zoo newId st name species =
     (if falsy name \<or> falsy species then (Response 400 (Message msg_faltan_campos), st)
      else
        (case save_new_animal newId name species None st of
           Inl err \<Rightarrow> (Response 400 (Failure msg_error_crear_animal), st)
         | Inr (newAnimal, st') \<Rightarrow> (Response 201 (AnimalDoc newAnimal), st')))"

text \<open>\<^verbatim>\<open>router.post('/')\<close>: the zoo is looked up first; the animal is saved with the found
  zoo's identifier. The handler writes nothing else.\<close>

definition post_animal ::
  "oid \<Rightarrow> store \<Rightarrow> string option \<Rightarrow> string option \<Rightarrow> oid option \<Rightarrow> response \<times> store" where
  "post_animal newId st name species z =
     (case findById zoo_id (Zoos st) z of
        None \<Rightarrow> (Response 404 (Message msg_zoo_no_encontrado), st)
      | Some foundZoo \<Rightarrow>
          (case save_new_animal newId name species (Some (zoo_id foundZoo)) st of
             Inl err \<Rightarrow> (Response 400 (Failure msg_error_crear_animal), st)
           | Inr (newAnimal, st') \<Rightarrow> (Response 201 (AnimalDoc newAnimal), st')))"



text \<open>\<^verbatim>\<open>router.put('/:id')\<close>: the target zoo is looked up, then
  \<^verbatim>\<open>Animal.findByIdAndUpdate(id, {name, species, zoo: foundZoo._id}, {new: true})\<close> runs
  (no validators on an update). The body's name and species are strings here; a body that
  leaves one of them out is outside this model.\<close>

definition put_animal ::
  "store \<Rightarrow> oid \<Rightarrow> string \<Rightarrow> string \<Rightarrow> oid option \<Rightarrow> response \<times> store" where
  "put_animal st i name species z =
     (case findById zoo_id (Zoos st) z of
        None \<Rightarrow> (Response 404 (Message msg_zoologico_no_encontrado), st)
      | Some foundZoo \<Rightarrow>
          (case findById animal_id (Animals st) (Some i) of
             None \<Rightarrow> (Response 404 (Message msg_animal_no_encontrado), st)
           | Some old \<Rightarrow>
               (let animal = old\<lparr>animal_name := name, animal_species := species,
                                 animal_zoo := Some (zoo_id foundZoo)\<rparr>
                in (Response 200 (AnimalDoc animal),
                    st\<lparr>Animals := map (\<lambda>d. if animal_id d = i then animal else d) (Animals st)\<rparr>))))"

text \<open>\<^verbatim>\<open>router.delete('/:id')\<close>: the animal and then its zoo are looked up, each answered
  with 404 when missing; then the animal is deleted. The zoo is only read.\<close>

definition delete_animal_route :: "store \<Rightarrow> oid \<Rightarrow> response \<times> store" where
  "delete_animal_route st i =
     (case findById animal_id (Animals st) (Some i) of
        None \<Rightarrow> (Response 404 (Message msg_animal_no_encontrado), st)
      | Some animal \<Rightarrow>
          (case findById zoo_id (Zoos st) (animal_zoo animal) of
             None \<Rightarrow> (Response 404 (Message msg_zoo_no_encontrado), st)
           | Some z \<Rightarrow>
               (Response 200 (Message msg_animal_eliminado_exitosamente), delete_animal i st)))"

section \<open>Habitat graph: the animal controller (controllers/animalController.js)\<close>

text \<open>\<^verbatim>\<open>createAnimal\<close>: the animal is saved first, with the zoo reference of the request as
  it is; then the zoo is looked up, the new identifier is pushed onto its collection and
  the zoo is saved.\<close>

definition createAnimal ::
  "oid \<Rightarrow> store \<Rightarrow> string option \<Rightarrow> string option \<Rightarrow> oid option \<Rightarrow> response \<times> store" where
  "createAnimal newId st name species z =
     (case save_new_animal newId name species z st of
        Inl err \<Rightarrow> (Response 400 (ErrorMessage err), st)
      | Inr (newAnimal, st1) \<Rightarrow>
          (case findById zoo_id (Zoos st1) z of
             None \<Rightarrow> (Response 404 (Message msg_zoo_no_encontrado), st1)
           | Some found \<Rightarrow>
               (case save_zoo (found\<lparr>zoo_animals := zoo_animals found @ [animal_id newAnimal]\<rparr>) st1 of
                  Inl err \<Rightarrow> (Response 400 (ErrorMessage err), st1)
                | Inr st2 \<Rightarrow> (Response 201 (AnimalDoc newAnimal), st2))))"

text \<open>\<^verbatim>\<open>updateAnimal\<close>: \<^verbatim>\<open>Animal.findByIdAndUpdate(id, req.body, {new: true})\<close>. A field the
  body holds is set; a field it leaves out stays.\<close>

definition updateAnimal ::
  "store \<Rightarrow> oid \<Rightarrow> string option \<Rightarrow> string option \<Rightarrow> oid option \<Rightarrow> response \<times> store" where
  "updateAnimal st i name species z =
     (case findById animal_id (Animals st) (Some i) of
        None \<Rightarrow> (Response 404 (Message msg_animal_no_encontrado), st)
      | Some old \<Rightarrow>
          (let updatedAnimal =
                 old\<lparr>animal_name := (case name of None \<Rightarrow> animal_name old | Some n \<Rightarrow> n),
                     animal_species := (case species of None \<Rightarrow> animal_species old | Some s \<Rightarrow> s),
                     animal_zoo := (case z of None \<Rightarrow> animal_zoo old | Some k \<Rightarrow> Some k)\<rparr>
           in (Response 200 (AnimalDoc updatedAnimal),
               st\<lparr>Animals := map (\<lambda>d. if animal_id d = i then updatedAnimal else d) (Animals st)\<rparr>)))"

text \<open>\<^verbatim>\<open>deleteAnimal\<close>: when the animal's zoo exists, the animal's identifier is filtered out
  of its collection and the zoo is saved; a missing zoo is passed over. Then the animal
  is deleted.\<close>

definition deleteAnimal :: "store \<Rightarrow> oid \<Rightarrow> response \<times> store" where
  "deleteAnimal st i =
     (case findById animal_id (Animals st) (Some i) of
        None \<Rightarrow> (Response 404 (Message msg_animal_no_encontrado), st)
      | Some animal \<Rightarrow>
          (case findById zoo_id (Zoos st) (animal_zoo animal) of
             None \<Rightarrow> (Response 200 (Message msg_animal_eliminado), delete_animal i st)
           | Some found \<Rightarrow>
               (case save_zoo
                       (found\<lparr>zoo_animals := filter (\<lambda>animalId. animalId \<noteq> animal_id animal)
                                                   (zoo_animals found)\<rparr>) st of
                  Inl err \<Rightarrow> (Response 500 (ErrorMessage err), st)
                | Inr st1 \<Rightarrow> (Response 200 (Message msg_animal_eliminado), delete_animal i st1))))"

section \<open>Habitat graph: the zoo routes (routes/zooRoutes.js)\<close>

text \<open>
  \<^verbatim>\<open>router.post('/')\<close>. \<^verbatim>\<open>Animal.find({_id: {$in: animals}})\<close> returns the stored animals
  whose identifier occurs in the list, each once, in store order. The lengths of the
  result and of the request's list are compared. When the body has no list,
  \<^verbatim>\<open>animals.length\<close> throws inside the \<^verbatim>\<open>try\<close> and the \<^verbatim>\<open>catch\<close> answers.
\<close>

definition post_zoo ::
  "oid \<Rightarrow> store \<Rightarrow> string option \<Rightarrow> string option \<Rightarrow> oid list option \<Rightarrow> response \<times> store" where
  "post_zoo newId st name loc animals =
     (case animals of
        None \<Rightarrow> (Response 400 (Failure msg_error_crear_zoo), st)
      | Some ids \<Rightarrow>
          (let foundAnimals = filter (\<lambda>a. animal_id a \<in> set ids) (Animals st)
           in if length foundAnimals \<noteq> length ids
              then (Response 400 (Message msg_animales_no_existen), st)
              else
                (case save_new_zoo newId name loc (map animal_id foundAnimals) st of
                   Inl err \<Rightarrow> (Response 400 (Failure msg_error_crear_zoo), st)
                 | Inr (newZoo, st') \<Rightarrow> (Response 201 (ZooDoc newZoo), st'))))"

text \<open>\<^verbatim>\<open>router.delete('/:id')\<close>: the zoo is deleted; no animal is touched.\<close>

definition delete_zoo_route :: "store \<Rightarrow> oid \<Rightarrow> response \<times> store" where
  "delete_zoo_route st i =
     (case findById zoo_id (Zoos st) (Some i) of
        None \<Rightarrow> (Response 404 (Message msg_zoo_no_encontrado), st)
      | Some deletedZoo \<Rightarrow>
          (Response 200 (Message msg_zoo_eliminado),
           st\<lparr>Zoos := filter (\<lambda>z. zoo_id z \<noteq> i) (Zoos st)\<rparr>))"

section \<open>The link between an animal and its zoo\<close>

text \<open>
  The invariant of the data model, as a check on a store: an animal with a zoo reference
  stands in the collection of that zoo, which exists; and an identifier in a zoo's
  collection is the identifier of a stored animal whose zoo reference is that zoo.
\<close>

definition link_invariant :: "store \<Rightarrow> bool" where
  "link_invariant st =
     (list_all
        (\<lambda>a. case animal_zoo a of
                None \<Rightarrow> True
              | Some z \<Rightarrow>
                  (case findById zoo_id (Zoos st) (Some z) of
                     None \<Rightarrow> False
                   | Some found \<Rightarrow> animal_id a \<in> set (zoo_animals found)))
        (Animals st)
      \<and> list_all
          (\<lambda>z. list_all
                 (\<lambda>i. case findById animal_id (Animals st) (Some i) of
                         None \<Rightarrow> False
                       | Some a \<Rightarrow> animal_zoo a = Some (zoo_id z))
                 (zoo_animals z))
          (Zoos st))"

section \<open>Identity and session\<close>

text \<open>
  The hashing library (bcryptjs) and the token library (jsonwebtoken) are not code of
  the repository. The handlers take them as parameters:
  \<^item> \<open>hash p s\<close> is \<^verbatim>\<open>bcrypt.hash(p, ...)\<close> with the salt \<open>s\<close> that the call draws (or is
    given, after \<^verbatim>\<open>bcrypt.genSalt(10)\<close>);
  \<^item> \<open>compare p h\<close> is \<^verbatim>\<open>bcrypt.compare(p, h)\<close> on two strings;
  \<^item> \<open>sign c\<close> is \<^verbatim>\<open>jwt.sign(c, process.env.JWT_SECRET, {expiresIn: '1h'})\<close>, which can
    throw;
  \<^item> \<open>verify t\<close> is \<^verbatim>\<open>jwt.verify(t, process.env.JWT_SECRET)\<close> at the time of the request:
    the decoded payload, or \<open>None\<close> when it throws (a malformed token, a bad signature,
    an expired token).
\<close>

type_synonym salt = nat

record token_claims =
  claim_id :: "oid option"
  claim_username :: "string option"

text \<open>\<^verbatim>\<open>new User({username, password}).save()\<close>: both paths are required, and the
  username is unique.\<close>

definition save_new_user ::
  "oid \<Rightarrow> string option \<Rightarrow> string \<Rightarrow> store \<Rightarrow> js_error + user \<times> store" where
  "save_new_user newId name pw st =
     (case name of
        None \<Rightarrow> Inl ValidationError
      | Some n \<Rightarrow>
          if n = [] then Inl ValidationError
          else if pw = [] then Inl ValidationError
          else if find (\<lambda>u. user_username u = n) (Users st) \<noteq> None then Inl DuplicateKeyError
          else
            (let u = \<lparr>user_id = newId, user_username = n, user_password = pw\<rparr>
             in Inr (u, st\<lparr>Users := Users st @ [u]\<rparr>)))"

text \<open>\<^verbatim>\<open>user.save()\<close> on a fetched and changed user document: the required paths are
  validated, then the stored document with the same identifier is replaced; when the
  store holds no such document any more, the save throws.\<close>

definition save_user :: "user \<Rightarrow> store \<Rightarrow> js_error + store" where
  "save_user u st =
     (if user_username u = [] then Inl ValidationError
      else if user_password u = [] then Inl ValidationError
      else if find (\<lambda>d. user_id d = user_id u) (Users st) = None then Inl DocumentNotFoundError
      else Inr (st\<lparr>Users := map (\<lambda>d. if user_id d = user_id u then u else d) (Users st)\<rparr>))"

subsection \<open>The authorization middleware (middlewares/auth.js)\<close>

text \<open>\<^verbatim>\<open>s.replace(pat, rep)\<close> with a string pattern: the first occurrence of the pattern,
  wherever it stands, is replaced.\<close>

fun replace_first :: "string \<Rightarrow> string \<Rightarrow> string \<Rightarrow> string" where
  "replace_first pat rep [] = (if pat = [] then rep else [])"
| "replace_first pat rep (c # cs) =
     (if take (length pat) (c # cs) = pat then rep @ drop (length pat) (c # cs)
      else c # replace_first pat rep cs)"

text \<open>
  How a middleware ends: it throws outside any \<^verbatim>\<open>try\<close> (no response is written), it
  answers, or it sets \<^verbatim>\<open>req.user\<close> and calls \<^verbatim>\<open>next()\<close>.
\<close>

datatype outcome = Uncaught js_error | Responded response | Next user

text \<open>
  \<^verbatim>\<open>authMiddleware\<close>. \<^verbatim>\<open>req.header('Authorization')\<close> is undefined when the request has no
  such header, and the call of \<^verbatim>\<open>.replace\<close> on it stands before the \<^verbatim>\<open>try\<close>.
\<close>

definition authMiddleware ::
  "(string \<Rightarrow> token_claims option) \<Rightarrow> store \<Rightarrow> string option \<Rightarrow> outcome" where
  "authMiddleware verify st header =
     (case header of
        None \<Rightarrow> Uncaught TypeError
      | Some h \<Rightarrow>
          (let token = replace_first ''Bearer '' [] h
           in if token = [] then Responded (Response 401 (Message msg_autenticacion_requerida))
              else
                (case verify token of
                   None \<Rightarrow> Responded (Response 401 (Failure msg_token_invalido))
                 | Some decoded \<Rightarrow>
                     (case findById user_id (Users st) (claim_id decoded) of
                        None \<Rightarrow> Responded (Response 404 (Message msg_usuario_no_encontrado))
                      | Some u \<Rightarrow> Next u))))"

subsection \<open>The credential routes (routes/authRoutes.js)\<close>

text \<open>\<^verbatim>\<open>router.post('/users')\<close>: registration. \<^verbatim>\<open>bcrypt.hash\<close> throws on an undefined
  password. The token is signed after the user is saved.\<close>

definition post_users ::
  "(string \<Rightarrow> salt \<Rightarrow> string) \<Rightarrow> (token_claims \<Rightarrow> js_error + string) \<Rightarrow> oid \<Rightarrow> salt \<Rightarrow> store
     \<Rightarrow> string option \<Rightarrow> string option \<Rightarrow> response \<times> store" where
  "post_users hash sign newId s st username password =
     (case password of
        None \<Rightarrow> (Response 400 (Failure msg_error_registrar), st)
      | Some p \<Rightarrow>
          (let hashedPassword = hash p s
           in case save_new_user newId username hashedPassword st of
                Inl err \<Rightarrow> (Response 400 (Failure msg_error_registrar), st)
              | Inr (newUser, st') \<Rightarrow>
                  (case sign \<lparr>claim_id = Some (user_id newUser), claim_username = None\<rparr> of
                     Inl err \<Rightarrow> (Response 400 (Failure msg_error_registrar), st')
                   | Inr token \<Rightarrow> (Response 201 (TokenBody token), st'))))"

text \<open>\<^verbatim>\<open>router.post('/change-password')\<close>, after \<^verbatim>\<open>authMiddleware\<close> has set \<^verbatim>\<open>req.user\<close>
  (the argument \<open>u\<close>).\<close>

definition post_change_password ::
  "(string \<Rightarrow> salt \<Rightarrow> string) \<Rightarrow> (string \<Rightarrow> string \<Rightarrow> bool) \<Rightarrow> salt \<Rightarrow> store \<Rightarrow> user
     \<Rightarrow> string option \<Rightarrow> string option \<Rightarrow> response \<times> store" where
  "post_change_password hash compare s st u oldPassword newPassword =
     (case oldPassword of
        None \<Rightarrow> (Response 400 (Failure msg_error_cambiar), st)
      | Some old \<Rightarrow>
          if \<not> compare old (user_password u)
          then (Response 400 (Message msg_contrasena_actual_incorrecta), st)
          else
            (case newPassword of
               None \<Rightarrow> (Response 400 (Failure msg_error_cambiar), st)
             | Some new \<Rightarrow>
                 (case save_user (u\<lparr>user_password := hash new s\<rparr>) st of
                    Inl err \<Rightarrow> (Response 400 (Failure msg_error_cambiar), st)
                  | Inr st' \<Rightarrow> (Response 200 (Message msg_contrasena_cambiada), st'))))"

text \<open>\<^verbatim>\<open>router.post('/reset-password')\<close>: no authentication; the user is looked up by
  username (a string here).\<close>

definition post_reset_password ::
  "(string \<Rightarrow> salt \<Rightarrow> string) \<Rightarrow> salt \<Rightarrow> store \<Rightarrow> string \<Rightarrow> string option \<Rightarrow> response \<times> store" where
  "post_reset_password hash s st username newPassword =
     (case find (\<lambda>u. user_username u = username) (Users st) of
        None \<Rightarrow> (Response 404 (Message msg_usuario_no_encontrado), st)
      | Some u \<Rightarrow>
          (case newPassword of
             None \<Rightarrow> (Response 400 (Failure msg_error_restablecer), st)
           | Some new \<Rightarrow>
               (case save_user (u\<lparr>user_password := hash new s\<rparr>) st of
                  Inl err \<Rightarrow> (Response 400 (Failure msg_error_restablecer), st)
                | Inr st' \<Rightarrow> (Response 200 (Message msg_contrasena_restablecida), st'))))"

text \<open>What a handler may write into a password field: a user of the new store either
  stands in the old store as it is, or holds the hash of the request's plaintext.\<close>

definition only_hash_written ::
  "(string \<Rightarrow> salt \<Rightarrow> string) \<Rightarrow> salt \<Rightarrow> string option \<Rightarrow> store \<Rightarrow> store \<Rightarrow> bool" where
  "only_hash_written hash s plain st st' =
     list_all
       (\<lambda>u. u \<in> set (Users st)
            \<or> (case plain of None \<Rightarrow> False | Some p \<Rightarrow> user_password u = hash p s))
       (Users st')"

subsection \<open>Login (controllers/authController.js)\<close>

text \<open>
  The user model's file (the one that defines \<^verbatim>\<open>userSchema\<close> and \<^verbatim>\<open>postSchema\<close>) ends with
  \<^verbatim>\<open>module.exports = { User, Post }\<close>. The middleware and
  the credential routes import the model by destructuring,
  \<^verbatim>\<open>const { User } = require('../models/userModel')\<close>. The login controller binds the whole
  export object instead, \<^verbatim>\<open>const User = require('../models/userModel')\<close>, and an object
  \<^verbatim>\<open>{ User, Post }\<close> has no member \<^verbatim>\<open>findOne\<close>: calling it throws a TypeError.
\<close>

datatype user_binding = Exports_object | User_model

definition findOne :: "user_binding \<Rightarrow> user list \<Rightarrow> string \<Rightarrow> js_error + user option" where
  "findOne b users name =
     (case b of
        Exports_object \<Rightarrow> Inl TypeError
      | User_model \<Rightarrow> Inr (find (\<lambda>u. user_username u = name) users))"

text \<open>The body of \<^verbatim>\<open>login\<close>, over the binding of \<^verbatim>\<open>User\<close>. The first three answers are
  the check \<^verbatim>\<open>!username || !password\<close> (a field that is undefined or the empty string).
  Everything after it stands in a \<^verbatim>\<open>try\<close> whose \<^verbatim>\<open>catch\<close> answers 500.\<close>

definition login_with ::
  "user_binding \<Rightarrow> (string \<Rightarrow> string \<Rightarrow> bool) \<Rightarrow> (token_claims \<Rightarrow> js_error + string) \<Rightarrow> store
     \<Rightarrow> string option \<Rightarrow> string option \<Rightarrow> response" where
  "login_with b compare sign st username password =
     (case username of
        None \<Rightarrow> Response 400 (Message msg_username_password_required)
      | Some name \<Rightarrow>
          (case password of
             None \<Rightarrow> Response 400 (Message msg_username_password_required)
           | Some p \<Rightarrow>
               if name = [] \<or> p = [] then Response 400 (Message msg_username_password_required)
               else
                 (case findOne b (Users st) name of
                    Inl err \<Rightarrow> Response 500 (Message msg_server_error)
                  | Inr None \<Rightarrow> Response 400 (Message msg_invalid_credentials)
                  | Inr (Some u) \<Rightarrow>
                      if \<not> compare p (user_password u)
                      then Response 400 (Message msg_invalid_credentials)
                      else
                        (case sign \<lparr>claim_id = Some (user_id u),
                                     claim_username = Some (user_username u)\<rparr> of
                           Inl err \<Rightarrow> Response 500 (Message msg_server_error)
                         | Inr token \<Rightarrow> Response 200 (TokenBody token)))))"

text \<open>\<^verbatim>\<open>login\<close> as the controller has it: \<^verbatim>\<open>User\<close> is the export object.\<close>

definition login ::
  "(string \<Rightarrow> string \<Rightarrow> bool) \<Rightarrow> (token_claims \<Rightarrow> js_error + string) \<Rightarrow> store
     \<Rightarrow> string option \<Rightarrow> string option \<Rightarrow> response" where
  "login = login_with Exports_object"

section \<open>Example data\<close>

definition leo :: animal where
  "leo = \<lparr>animal_id = 1, animal_name = ''Leo'', animal_species = ''lion'', animal_zoo = None\<rparr>"

definition store_leo :: store where
  "store_leo = \<lparr>Animals = [leo], Zoos = [], Users = []\<rparr>"

definition city_zoo :: zoo where
  "city_zoo = \<lparr>zoo_id = 5, zoo_name = ''City Zoo'', zoo_location = ''Springfield'',
               zoo_animals = []\<rparr>"

definition store_city :: store where
  "store_city = \<lparr>Animals = [leo], Zoos = [city_zoo], Users = []\<rparr>"

definition city_zoo_with_leo :: zoo where
  "city_zoo_with_leo = \<lparr>zoo_id = 5, zoo_name = ''City Zoo'', zoo_location = ''Springfield'',
                        zoo_animals = [1]\<rparr>"

definition safari_zoo :: zoo where
  "safari_zoo = \<lparr>zoo_id = 6, zoo_name = ''Safari'', zoo_location = ''Shelbyville'',
                 zoo_animals = []\<rparr>"

definition leo_in_city :: animal where
  "leo_in_city = \<lparr>animal_id = 1, animal_name = ''Leo'', animal_species = ''lion'',
                  animal_zoo = Some 5\<rparr>"

definition leo_in_safari :: animal where
  "leo_in_safari = \<lparr>animal_id = 1, animal_name = ''Leo'', animal_species = ''lion'',
                    animal_zoo = Some 6\<rparr>"

definition simba :: animal where
  "simba = \<lparr>animal_id = 2, animal_name = ''Simba'', animal_species = ''lion'',
            animal_zoo = Some 5\<rparr>"

text \<open>Leo and the City Zoo, linked from both sides.\<close>

definition store_linked :: store where
  "store_linked = \<lparr>Animals = [leo_in_city], Zoos = [city_zoo_with_leo], Users = []\<rparr>"

definition store_two_zoos :: store where
  "store_two_zoos =
     \<lparr>Animals = [leo_in_city], Zoos = [city_zoo_with_leo, safari_zoo], Users = []\<rparr>"

text \<open>A registered user; the stored password is some hash.\<close>

definition juan :: user where
  "juan = \<lparr>user_id = 1, user_username = ''juan123'', user_password = ''$2a$10$hash''\<rparr>"

definition store_juan :: store where
  "store_juan = \<lparr>Animals = [], Zoos = [], Users = [juan]\<rparr>"

definition empty_store :: store where
  "empty_store = \<lparr>Animals = [], Zoos = [], Users = []\<rparr>"

section \<open>Facts about lookups\<close>

lemma findById_None_iff:
  "(findById ident docs (Some i) = None) = (i \<notin> ident ` set docs)"
  by (auto simp: findById_def find_None_iff)

lemma find_Some_ident:
  "find (\<lambda>d. ident d = k) docs = Some d \<Longrightarrow> ident d = k"
  by (induction docs) (auto split: if_splits)

lemma find_replaced:
  "find (\<lambda>d. ident d = k) docs = Some old \<Longrightarrow> ident new = k
   \<Longrightarrow> find (\<lambda>d. ident d = k) (map (\<lambda>d. if ident d = k then new else d) docs) = Some new"
  by (induction docs) (auto split: if_splits)

lemma find_appended_new:
  "k \<notin> ident ` set docs \<Longrightarrow> ident new = k
   \<Longrightarrow> find (\<lambda>d. ident d = k) (docs @ [new]) = Some new"
  by (induction docs) auto

lemma find_deleted:
  "find (\<lambda>d. ident d = k) (filter (\<lambda>d. ident d \<noteq> k) docs) = None"
  by (induction docs) auto

lemma found_count:
  assumes "distinct (map ident docs)"
  shows "length (filter (\<lambda>d. ident d \<in> S) docs) = card (S \<inter> ident ` set docs)"
proof -
  have "length (filter (\<lambda>d. ident d \<in> S) docs) = length (filter (\<lambda>x. x \<in> S) (map ident docs))"
    by (simp add: filter_map comp_def)
  also have "\<dots> = card (set (filter (\<lambda>x. x \<in> S) (map ident docs)))"
    using assms by (metis distinct_card distinct_filter)
  also have "set (filter (\<lambda>x. x \<in> S) (map ident docs)) = S \<inter> ident ` set docs"
    by auto
  finally show ?thesis .
qed

text \<open>With unique identifiers in the collection, the lengths agree exactly when the
  request's list has no repetition and each of its identifiers is stored.\<close>

lemma found_count_eq_iff:
  assumes "distinct (map ident docs)"
  shows "(length (filter (\<lambda>d. ident d \<in> set ids) docs) = length ids)
       = (distinct ids \<and> set ids \<subseteq> ident ` set docs)"
proof -
  let ?n = "card (set ids \<inter> ident ` set docs)"
  have le1: "?n \<le> card (set ids)" by (simp add: card_mono)
  have le2: "card (set ids) \<le> length ids" by (rule card_length)
  have "(?n = length ids) = (distinct ids \<and> set ids \<subseteq> ident ` set docs)"
  proof
    assume eq: "?n = length ids"
    with le1 le2 have c: "card (set ids) = length ids" and d: "?n = card (set ids)" by auto
    from c have "distinct ids" by (simp add: card_distinct)
    moreover from d have "set ids \<inter> ident ` set docs = set ids"
      by (intro card_subset_eq) auto
    ultimately show "distinct ids \<and> set ids \<subseteq> ident ` set docs" by auto
  next
    assume "distinct ids \<and> set ids \<subseteq> ident ` set docs"
    then have "set ids \<inter> ident ` set docs = set ids" and "card (set ids) = length ids"
      by (auto simp: distinct_card)
    then show "?n = length ids" by simp
  qed
  then show ?thesis using found_count[OF assms, of "set ids"] by simp
qed

section \<open>Reading the animals of a zoo\<close>




section \<open>Creating a zoo\<close>

text \<open>
  C10. A request whose body has no list of animal identifiers is answered with 400 and
  the "error creating the zoo" message, and the store is left as it was: no zoo is
  created, whatever name and location the body holds.
\<close>

theorem post_zoo_without_list_fails:
  "post_zoo newId st name loc None = (Response 400 (Failure msg_error_crear_zoo), st)"
  by (simp add: post_zoo_def)

text \<open>
  C5, as the handler has it. The handler compares the number of animals found with the
  length of the request's list. When they differ, the request is answered with 400 and
  the "one or more animals do not exist" message, and nothing is created; in a store
  with unique animal identifiers they differ whenever some identifier of the list is not
  stored. When they agree, and the name and the location pass the schema's \<open>required\<close>
  check, a zoo is stored whose collection holds exactly the identifiers found, which in
  a store with unique identifiers are the identifiers of the list; when they agree and
  the name or the location is missing or empty, the request is answered with 400 and the
  "error creating the zoo" message, and nothing is created.
\<close>

theorem post_zoo_with_list:
  "(length (filter (\<lambda>a. animal_id a \<in> set ids) (Animals st)) \<noteq> length ids
      \<longrightarrow> post_zoo newId st name loc (Some ids)
            = (Response 400 (Message msg_animales_no_existen), st))
   \<and> (distinct (map animal_id (Animals st))
        \<and> (\<exists>i\<in>set ids. findById animal_id (Animals st) (Some i) = None)
      \<longrightarrow> length (filter (\<lambda>a. animal_id a \<in> set ids) (Animals st)) \<noteq> length ids)
   \<and> (length (filter (\<lambda>a. animal_id a \<in> set ids) (Animals st)) = length ids
        \<and> required name \<and> required loc
      \<longrightarrow> (\<exists>z. post_zoo newId st name loc (Some ids)
                  = (Response 201 (ZooDoc z), st\<lparr>Zoos := Zoos st @ [z]\<rparr>)
               \<and> zoo_id z = newId \<and> Some (zoo_name z) = name \<and> Some (zoo_location z) = loc
               \<and> zoo_animals z
                   = map animal_id (filter (\<lambda>a. animal_id a \<in> set ids) (Animals st))))
   \<and> (length (filter (\<lambda>a. animal_id a \<in> set ids) (Animals st)) = length ids
        \<and> distinct (map animal_id (Animals st))
      \<longrightarrow> set (map animal_id (filter (\<lambda>a. animal_id a \<in> set ids) (Animals st))) = set ids)
   \<and> (length (filter (\<lambda>a. animal_id a \<in> set ids) (Animals st)) = length ids
        \<and> \<not> (required name \<and> required loc)
      \<longrightarrow> post_zoo newId st name loc (Some ids)
            = (Response 400 (Failure msg_error_crear_zoo), st))"
proof -
  let ?found = "filter (\<lambda>a. animal_id a \<in> set ids) (Animals st)"
  have differ: "post_zoo newId st name loc (Some ids)
                  = (Response 400 (Message msg_animales_no_existen), st)"
    if "length ?found \<noteq> length ids"
    using that by (simp add: post_zoo_def)
  have missing: "length ?found \<noteq> length ids"
    if "distinct (map animal_id (Animals st))
        \<and> (\<exists>i\<in>set ids. findById animal_id (Animals st) (Some i) = None)"
  proof -
    from that have "\<not> set ids \<subseteq> animal_id ` set (Animals st)"
      by (auto simp: findById_None_iff)
    with that show ?thesis
      using found_count_eq_iff [of animal_id "Animals st" ids] by simp
  qed
  have stored: "\<exists>z. post_zoo newId st name loc (Some ids)
                  = (Response 201 (ZooDoc z), st\<lparr>Zoos := Zoos st @ [z]\<rparr>)
               \<and> zoo_id z = newId \<and> Some (zoo_name z) = name \<and> Some (zoo_location z) = loc
               \<and> zoo_animals z = map animal_id ?found"
    if ok: "length ?found = length ids \<and> required name \<and> required loc"
  proof -
    from ok obtain n l where nl: "name = Some n" "loc = Some l" "n \<noteq> []" "l \<noteq> []"
      by (auto simp: required_def split: option.splits)
    let ?z = "\<lparr>zoo_id = newId, zoo_name = n, zoo_location = l, zoo_animals = map animal_id ?found\<rparr>"
    have "post_zoo newId st name loc (Some ids)
            = (Response 201 (ZooDoc ?z), st\<lparr>Zoos := Zoos st @ [?z]\<rparr>)"
      using ok nl by (simp add: post_zoo_def save_new_zoo_def Let_def)
    with nl show ?thesis by (intro exI[of _ ?z]) simp
  qed
  have same_set: "set (map animal_id ?found) = set ids"
    if "length ?found = length ids \<and> distinct (map animal_id (Animals st))"
  proof -
    from that have "set ids \<subseteq> animal_id ` set (Animals st)"
      using found_count_eq_iff [of animal_id "Animals st" ids] by simp
    then show ?thesis by auto
  qed
  have invalid: "post_zoo newId st name loc (Some ids)
                   = (Response 400 (Failure msg_error_crear_zoo), st)"
    if "length ?found = length ids \<and> \<not> (required name \<and> required loc)"
    using that
    by (auto simp: post_zoo_def save_new_zoo_def required_def Let_def split: option.splits)
  from differ missing stored same_set invalid show ?thesis by blast
qed

theorem post_zoo_with_list_witness:
  "distinct (map animal_id (Animals store_leo))
   \<and> required (Some ''City Zoo'') \<and> required (Some ''Springfield'')
   \<and> post_zoo 5 store_leo (Some ''City Zoo'') (Some ''Springfield'') (Some [1])
       = (Response 201 (ZooDoc city_zoo_with_leo), store_leo\<lparr>Zoos := [city_zoo_with_leo]\<rparr>)
   \<and> findById animal_id (Animals store_leo) (Some 2) = None
   \<and> post_zoo 5 store_leo (Some ''City Zoo'') (Some ''Springfield'') (Some [1, 2])
       = (Response 400 (Message msg_animales_no_existen), store_leo)"
  using post_zoo_with_list [of "[1]" store_leo 5 "Some ''City Zoo''" "Some ''Springfield''"]
    post_zoo_with_list [of "[1, 2]" store_leo 5 "Some ''City Zoo''" "Some ''Springfield''"]
  by (simp add: post_zoo_def save_new_zoo_def store_leo_def leo_def city_zoo_with_leo_def
      findById_def required_def Let_def)

text \<open>The list [1] resolves and the counts agree, but the body has no name: the request is
  answered with 400 and no zoo is stored.\<close>

theorem post_zoo_missing_name_counterexample:
  "findById animal_id (Animals store_leo) (Some 1) = Some leo
   \<and> length (filter (\<lambda>a. animal_id a \<in> set [1]) (Animals store_leo)) = length [1::nat]
   \<and> post_zoo 5 store_leo None (Some ''Springfield'') (Some [1])
       = (Response 400 (Failure msg_error_crear_zoo), store_leo)"
  by (simp add: post_zoo_def save_new_zoo_def store_leo_def leo_def findById_def Let_def)

section \<open>Creating an animal\<close>

text \<open>The route writes the animal collection only.\<close>

lemma post_animal_keeps_zoos:
  "Zoos (snd (post_animal newId st name species z)) = Zoos st"
  by (simp add: post_animal_def save_new_animal_def Let_def split: option.splits)

lemma post_animal_unknown_zoo:
  "findById zoo_id (Zoos st) z = None
   \<Longrightarrow> post_animal newId st name species z = (Response 404 (Message msg_zoo_no_encontrado), st)"
  by (simp add: post_animal_def)

text \<open>The controller does link both sides: with a zoo that resolves and a new
  identifier, the animal is stored with the zoo's identifier and the zoo's collection
  holds the animal's identifier once.\<close>

lemma createAnimal_links:
  assumes zoo: "findById zoo_id (Zoos st) (Some z) = Some found"
    and valid: "required name" "required species" "zoo_name found \<noteq> []" "zoo_location found \<noteq> []"
    and fresh: "newId \<notin> animal_id ` set (Animals st)" "newId \<notin> set (zoo_animals found)"
  shows "\<exists>a st'. createAnimal newId st name species (Some z) = (Response 201 (AnimalDoc a), st')
           \<and> findById animal_id (Animals st') (Some newId) = Some a
           \<and> animal_zoo a = Some z
           \<and> (\<exists>z'. findById zoo_id (Zoos st') (Some z) = Some z'
                   \<and> count_list (zoo_animals z') newId = 1)"
proof -
  from valid obtain n s where ns: "name = Some n" "species = Some s" "n \<noteq> []" "s \<noteq> []"
    by (auto simp: required_def split: option.splits)
  from zoo have fz: "find (\<lambda>d. zoo_id d = z) (Zoos st) = Some found"
    by (simp add: findById_def)
  then have idz: "zoo_id found = z" by (rule find_Some_ident)
  let ?a = "\<lparr>animal_id = newId, animal_name = n, animal_species = s, animal_zoo = Some z\<rparr>"
  let ?z' = "found\<lparr>zoo_animals := zoo_animals found @ [newId]\<rparr>"
  let ?st' = "st\<lparr>Animals := Animals st @ [?a],
                  Zoos := map (\<lambda>d. if zoo_id d = z then ?z' else d) (Zoos st)\<rparr>"
  have run: "createAnimal newId st name species (Some z) = (Response 201 (AnimalDoc ?a), ?st')"
    using ns zoo idz valid(3,4)
    by (simp add: createAnimal_def save_new_animal_def save_zoo_def findById_def Let_def)
  have a: "findById animal_id (Animals ?st') (Some newId) = Some ?a"
    using find_appended_new [of newId animal_id "Animals st" ?a] fresh(1)
    by (simp add: findById_def)
  have z': "findById zoo_id (Zoos ?st') (Some z) = Some ?z'"
    using find_replaced [OF fz, of ?z'] idz by (simp add: findById_def)
  have "count_list (zoo_animals ?z') newId = 1"
    using fresh(2) by (simp add: count_list_0_iff)
  with run a z' show ?thesis by (intro exI[of _ ?a] exI[of _ ?st']) simp
qed

lemma createAnimal_unknown_zoo:
  assumes "findById zoo_id (Zoos st) z = None" "required name" "required species"
  shows "fst (createAnimal newId st name species z) = Response 404 (Message msg_zoo_no_encontrado)"
  using assms
  by (auto simp: createAnimal_def save_new_animal_def required_def Let_def split: option.splits)

text \<open>
  C1, on the route that app.js mounts. The City Zoo exists and its collection is empty.
  Creating Simba with the City Zoo's identifier is answered with 201; Simba is stored
  with the zoo reference 5; the City Zoo is stored as before, so Simba's identifier
  occurs in its collection zero times, and the link invariant, which held before the
  request, does not hold after it.
\<close>

theorem post_animal_does_not_link:
  "link_invariant store_city
   \<and> post_animal 2 store_city (Some ''Simba'') (Some ''lion'') (Some 5)
       = (Response 201 (AnimalDoc simba), store_city\<lparr>Animals := [leo, simba]\<rparr>)
   \<and> animal_zoo simba = Some 5
   \<and> findById zoo_id (Zoos (store_city\<lparr>Animals := [leo, simba]\<rparr>)) (Some 5) = Some city_zoo
   \<and> count_list (zoo_animals city_zoo) (animal_id simba) = 0
   \<and> \<not> link_invariant (store_city\<lparr>Animals := [leo, simba]\<rparr>)"
  by (simp add: post_animal_def save_new_animal_def link_invariant_def findById_def Let_def
      store_city_def city_zoo_def leo_def simba_def)

section \<open>Deleting an animal\<close>

text \<open>The store in which Leo and the City Zoo are linked from both sides is reached
  through the mounted routes alone.\<close>

lemma store_linked_reachable:
  "post_animal_no_zoo 1 empty_store (Some ''Leo'') (Some ''lion'')
     = (Response 201 (AnimalDoc leo), store_leo)
   \<and> post_zoo 5 store_leo (Some ''City Zoo'') (Some ''Springfield'') (Some [1])
     = (Response 201 (ZooDoc city_zoo_with_leo), store_leo\<lparr>Zoos := [city_zoo_with_leo]\<rparr>)
   \<and> put_animal (store_leo\<lparr>Zoos := [city_zoo_with_leo]\<rparr>) 1 ''Leo'' ''lion'' (Some 5)
     = (Response 200 (AnimalDoc leo_in_city), store_linked)
   \<and> delete_zoo_route store_linked 5
     = (Response 200 (Message msg_zoo_eliminado), store_linked\<lparr>Zoos := []\<rparr>)"
  by (simp add: post_animal_no_zoo_def post_zoo_def put_animal_def delete_zoo_route_def
      save_new_animal_def save_new_zoo_def falsy_def findById_def Let_def
      empty_store_def store_leo_def leo_def city_zoo_with_leo_def leo_in_city_def
      store_linked_def)

lemma delete_animal_route_keeps_zoos:
  "Zoos (snd (delete_animal_route st i)) = Zoos st"
  by (simp add: delete_animal_route_def delete_animal_def split: option.splits)

lemma delete_animal_route_unknown_animal:
  "findById animal_id (Animals st) (Some i) = None
   \<Longrightarrow> delete_animal_route st i = (Response 404 (Message msg_animal_no_encontrado), st)"
  by (simp add: delete_animal_route_def)

text \<open>The controller takes the identifier out of the zoo's collection, passes over a zoo
  that is gone, and answers 404 for an animal that is not stored.\<close>

lemma deleteAnimal_unlinks:
  assumes animal: "findById animal_id (Animals st) (Some i) = Some a"
    and ref: "animal_zoo a = Some z"
    and zoo: "findById zoo_id (Zoos st) (Some z) = Some found"
    and valid: "zoo_name found \<noteq> []" "zoo_location found \<noteq> []"
  shows "\<exists>st'. deleteAnimal st i = (Response 200 (Message msg_animal_eliminado), st')
           \<and> findById animal_id (Animals st') (Some i) = None
           \<and> (\<exists>z'. findById zoo_id (Zoos st') (Some z) = Some z' \<and> i \<notin> set (zoo_animals z'))"
proof -
  from animal have ida: "animal_id a = i"
    by (auto simp: findById_def dest: find_Some_ident)
  from zoo have fz: "find (\<lambda>d. zoo_id d = z) (Zoos st) = Some found"
    by (simp add: findById_def)
  then have idz: "zoo_id found = z" by (rule find_Some_ident)
  let ?z' = "found\<lparr>zoo_animals := filter (\<lambda>animalId. animalId \<noteq> i) (zoo_animals found)\<rparr>"
  let ?st' = "st\<lparr>Zoos := map (\<lambda>d. if zoo_id d = z then ?z' else d) (Zoos st),
                  Animals := filter (\<lambda>d. animal_id d \<noteq> i) (Animals st)\<rparr>"
  have run: "deleteAnimal st i = (Response 200 (Message msg_animal_eliminado), ?st')"
    using animal ref zoo valid ida idz
    by (simp add: deleteAnimal_def save_zoo_def delete_animal_def)
  have gone: "findById animal_id (Animals ?st') (Some i) = None"
    by (simp add: findById_def find_deleted)
  have z': "findById zoo_id (Zoos ?st') (Some z) = Some ?z'"
    using find_replaced [OF fz, of ?z'] idz by (simp add: findById_def)
  have "i \<notin> set (zoo_animals ?z')" by simp
  with run gone z' show ?thesis by (intro exI[of _ ?st']) simp
qed

lemma deleteAnimal_tolerates_missing_zoo:
  assumes "findById animal_id (Animals st) (Some i) = Some a"
    and "findById zoo_id (Zoos st) (animal_zoo a) = None"
  shows "deleteAnimal st i = (Response 200 (Message msg_animal_eliminado), delete_animal i st)
       \<and> findById animal_id (Animals (delete_animal i st)) (Some i) = None"
  using assms by (simp add: deleteAnimal_def delete_animal_def findById_def find_deleted)

lemma deleteAnimal_unknown_animal:
  "findById animal_id (Animals st) (Some i) = None
   \<Longrightarrow> deleteAnimal st i = (Response 404 (Message msg_animal_no_encontrado), st)"
  by (simp add: deleteAnimal_def)

text \<open>
  C2, on the route that app.js mounts. Leo (identifier 1) stands in the City Zoo, linked
  from both sides. Deleting Leo is answered with 200 and removes the animal; a fetch of
  the City Zoo afterwards still shows the identifier 1 in its collection, and the link
  invariant no longer holds. When the City Zoo has been deleted first, deleting Leo is
  answered with 404 "zoo not found" and Leo stays stored.
\<close>

theorem delete_animal_route_leaves_identifier:
  "link_invariant store_linked
   \<and> delete_animal_route store_linked 1
       = (Response 200 (Message msg_animal_eliminado_exitosamente), store_linked\<lparr>Animals := []\<rparr>)
   \<and> findById zoo_id (Zoos (store_linked\<lparr>Animals := []\<rparr>)) (Some 5) = Some city_zoo_with_leo
   \<and> 1 \<in> set (zoo_animals city_zoo_with_leo)
   \<and> \<not> link_invariant (store_linked\<lparr>Animals := []\<rparr>)
   \<and> delete_animal_route (store_linked\<lparr>Zoos := []\<rparr>) 1
       = (Response 404 (Message msg_zoo_no_encontrado), store_linked\<lparr>Zoos := []\<rparr>)"
  by (simp add: delete_animal_route_def delete_animal_def link_invariant_def findById_def
      store_linked_def leo_in_city_def city_zoo_with_leo_def)

section \<open>Updating an animal\<close>

text \<open>Neither the route nor the controller writes the zoo collection.\<close>

lemma put_animal_keeps_zoos:
  "Zoos (snd (put_animal st i name species z)) = Zoos st"
  by (simp add: put_animal_def Let_def split: option.splits)

lemma updateAnimal_keeps_zoos:
  "Zoos (snd (updateAnimal st i name species z)) = Zoos st"
  by (simp add: updateAnimal_def Let_def split: option.splits)

lemma put_animal_unknown_zoo:
  "findById zoo_id (Zoos st) z = None
   \<Longrightarrow> put_animal st i name species z = (Response 404 (Message msg_zoologico_no_encontrado), st)"
  by (simp add: put_animal_def)

text \<open>The controller does not look the target zoo up: a reference to a zoo that does not
  exist is stored.\<close>

lemma updateAnimal_unknown_zoo:
  "updateAnimal store_two_zoos 1 None None (Some 7)
     = (Response 200 (AnimalDoc (leo_in_city\<lparr>animal_zoo := Some 7\<rparr>)),
        store_two_zoos\<lparr>Animals := [leo_in_city\<lparr>animal_zoo := Some 7\<rparr>]\<rparr>)"
  by (simp add: updateAnimal_def findById_def Let_def store_two_zoos_def leo_in_city_def
      city_zoo_with_leo_def safari_zoo_def)

text \<open>
  C4, on the route and on the controller. Leo stands in the City Zoo, linked from both
  sides, and the Safari zoo is empty. Moving Leo to the Safari zoo is answered with 200
  and stores the new zoo reference; both zoos are stored as before, so the Safari zoo's
  collection does not hold Leo's identifier, the City Zoo's collection still does, and
  the link invariant no longer holds.
\<close>

theorem put_animal_does_not_relink:
  "link_invariant store_two_zoos
   \<and> put_animal store_two_zoos 1 ''Leo'' ''lion'' (Some 6)
       = (Response 200 (AnimalDoc leo_in_safari), store_two_zoos\<lparr>Animals := [leo_in_safari]\<rparr>)
   \<and> updateAnimal store_two_zoos 1 None None (Some 6)
       = (Response 200 (AnimalDoc leo_in_safari), store_two_zoos\<lparr>Animals := [leo_in_safari]\<rparr>)
   \<and> Zoos (store_two_zoos\<lparr>Animals := [leo_in_safari]\<rparr>) = [city_zoo_with_leo, safari_zoo]
   \<and> 1 \<notin> set (zoo_animals safari_zoo)
   \<and> 1 \<in> set (zoo_animals city_zoo_with_leo)
   \<and> \<not> link_invariant (store_two_zoos\<lparr>Animals := [leo_in_safari]\<rparr>)"
  by (simp add: put_animal_def updateAnimal_def link_invariant_def findById_def Let_def
      store_two_zoos_def leo_in_city_def leo_in_safari_def city_zoo_with_leo_def
      safari_zoo_def)

section \<open>Authorization\<close>

lemma replace_first_prefix:
  "pat \<noteq> [] \<Longrightarrow> replace_first pat [] (pat @ t) = t"
  by (cases pat) simp_all

text \<open>With a header, the middleware does what its four answers say.\<close>

lemma authMiddleware_no_token:
  "replace_first ''Bearer '' [] h = []
   \<Longrightarrow> authMiddleware verify st (Some h) = Responded (Response 401 (Message msg_autenticacion_requerida))"
  by (simp add: authMiddleware_def)

lemma authMiddleware_bad_token:
  "replace_first ''Bearer '' [] h \<noteq> [] \<Longrightarrow> verify (replace_first ''Bearer '' [] h) = None
   \<Longrightarrow> authMiddleware verify st (Some h) = Responded (Response 401 (Failure msg_token_invalido))"
  by (simp add: authMiddleware_def)

lemma authMiddleware_unknown_user:
  "replace_first ''Bearer '' [] h \<noteq> [] \<Longrightarrow> verify (replace_first ''Bearer '' [] h) = Some decoded
   \<Longrightarrow> findById user_id (Users st) (claim_id decoded) = None
   \<Longrightarrow> authMiddleware verify st (Some h) = Responded (Response 404 (Message msg_usuario_no_encontrado))"
  by (simp add: authMiddleware_def)

lemma authMiddleware_accepts:
  "replace_first ''Bearer '' [] h \<noteq> [] \<Longrightarrow> verify (replace_first ''Bearer '' [] h) = Some decoded
   \<Longrightarrow> findById user_id (Users st) (claim_id decoded) = Some u
   \<Longrightarrow> authMiddleware verify st (Some h) = Next u"
  by (simp add: authMiddleware_def)

text \<open>
  C3, at a request with no Authorization header. The middleware does not answer 401: the
  call of \<^verbatim>\<open>.replace\<close> on the undefined header throws a TypeError before the check of the
  token and outside the \<^verbatim>\<open>try\<close>, so no response is written by the middleware.
\<close>

theorem authMiddleware_missing_header_throws:
  "authMiddleware verify st None = Uncaught TypeError"
  by (simp add: authMiddleware_def)

section \<open>Login\<close>

text \<open>The controller's \<^verbatim>\<open>login\<close>, with \<^verbatim>\<open>User\<close> bound to the export object, has two
  answers only.\<close>

lemma login_as_written:
  "login compare sign st username password =
     (if falsy username \<or> falsy password
      then Response 400 (Message msg_username_password_required)
      else Response 500 (Message msg_server_error))"
  by (simp add: login_def login_with_def findOne_def falsy_def split: option.splits)

text \<open>Over the model itself the body of \<^verbatim>\<open>login\<close> answers an unknown username and a
  wrong password alike, with 400 and "Invalid credentials".\<close>

lemma login_with_model_invalid_credentials:
  assumes "name \<noteq> []" "p \<noteq> []" "name' \<noteq> []" "p' \<noteq> []"
    and "find (\<lambda>u. user_username u = name) (Users st) = None"
    and "find (\<lambda>u. user_username u = name') (Users st) = Some u"
    and "\<not> compare p' (user_password u)"
  shows "login_with User_model compare sign st (Some name) (Some p)
           = Response 400 (Message msg_invalid_credentials)
       \<and> login_with User_model compare sign st (Some name') (Some p')
           = Response 400 (Message msg_invalid_credentials)"
  using assms by (simp add: login_with_def findOne_def)

text \<open>Whatever \<^verbatim>\<open>User\<close> is bound to, the two failures get one response.\<close>

lemma login_with_same_answer:
  assumes "name \<noteq> []" "p \<noteq> []" "name' \<noteq> []" "p' \<noteq> []"
    and "find (\<lambda>u. user_username u = name) (Users st) = None"
    and "find (\<lambda>u. user_username u = name') (Users st) = Some u"
    and "\<not> compare p' (user_password u)"
  shows "login_with b compare sign st (Some name) (Some p)
           = login_with b compare sign st (Some name') (Some p')"
  using assms by (cases b) (simp_all add: login_with_def findOne_def)

text \<open>
  C6, on \<^verbatim>\<open>login\<close> as the controller has it. juan123 is registered. A login with the
  unknown username "nobody" and a login as juan123 with a wrong password get the same
  response, and it is 500 "Server error" (the TypeError of \<^verbatim>\<open>User.findOne\<close>, caught), not
  the "Invalid credentials" answer.
\<close>

theorem login_answers_server_error:
  "login compare sign store_juan (Some ''nobody'') (Some ''pw1'')
     = Response 500 (Message msg_server_error)
   \<and> login compare sign store_juan (Some ''juan123'') (Some ''wrong'')
     = Response 500 (Message msg_server_error)"
  by (simp add: login_as_written falsy_def)

text \<open>Over the model itself, and with a hashing library whose \<open>compare\<close> accepts the hash
  of the same plaintext and a token library whose \<open>verify\<close> returns the identifier that
  was signed, registration, login and authorization fit together.\<close>

lemma register_login_authorize_with_model:
  assumes fields: "name \<noteq> []" "p \<noteq> []"
    and fresh: "name \<notin> user_username ` set (Users st)" "newId \<notin> user_id ` set (Users st)"
    and bcrypt: "hash p s \<noteq> []" "compare p (hash p s)"
    and jwt: "sign \<lparr>claim_id = Some newId, claim_username = None\<rparr> = Inr t0"
      "sign \<lparr>claim_id = Some newId, claim_username = Some name\<rparr> = Inr t"
      "t \<noteq> []" "verify t = Some decoded" "claim_id decoded = Some newId"
  shows "\<exists>u st'. post_users hash sign newId s st (Some name) (Some p)
                    = (Response 201 (TokenBody t0), st')
           \<and> user_username u = name \<and> user_id u = newId \<and> user_password u = hash p s
           \<and> login_with User_model compare sign st' (Some name) (Some p)
               = Response 200 (TokenBody t)
           \<and> authMiddleware verify st' (Some (''Bearer '' @ t)) = Next u"
proof -
  let ?u = "\<lparr>user_id = newId, user_username = name, user_password = hash p s\<rparr>"
  let ?st' = "st\<lparr>Users := Users st @ [?u]\<rparr>"
  from fresh(1) have none: "find (\<lambda>u. user_username u = name) (Users st) = None"
    by (auto simp: find_None_iff)
  have byname: "find (\<lambda>u. user_username u = name) (Users ?st') = Some ?u"
    using find_appended_new [of name user_username "Users st" ?u] fresh(1) by simp
  have byid: "findById user_id (Users ?st') (Some newId) = Some ?u"
    using find_appended_new [of newId user_id "Users st" ?u] fresh(2)
    by (simp add: findById_def)
  have reg: "post_users hash sign newId s st (Some name) (Some p)
               = (Response 201 (TokenBody t0), ?st')"
    using fields bcrypt(1) none jwt(1) by (simp add: post_users_def save_new_user_def Let_def)
  have log: "login_with User_model compare sign ?st' (Some name) (Some p)
               = Response 200 (TokenBody t)"
    using fields byname bcrypt(2) jwt(2) by (simp add: login_with_def findOne_def)
  have tok: "replace_first ''Bearer '' [] (''Bearer '' @ t) = t"
    by (rule replace_first_prefix) simp
  have auth: "authMiddleware verify ?st' (Some (''Bearer '' @ t)) = Next ?u"
    using tok jwt(3,4,5) byid authMiddleware_accepts [of "''Bearer '' @ t" verify decoded ?st' ?u]
    by simp
  from reg log auth show ?thesis by (intro exI[of _ ?u] exI[of _ ?st']) simp
qed

text \<open>The hypotheses can be met: a toy hash that prefixes a dollar sign, and a token
  library with the one token "tok".\<close>

lemma register_login_authorize_with_model_example:
  "\<exists>u st'. post_users (\<lambda>p s. CHR ''$'' # p) (\<lambda>c. Inr ''tok'') 1 0 empty_store
               (Some ''juan123'') (Some ''pw1'')
             = (Response 201 (TokenBody ''tok''), st')
         \<and> user_username u = ''juan123'' \<and> user_id u = 1 \<and> user_password u = ''$pw1''
         \<and> login_with User_model (\<lambda>p h. h = CHR ''$'' # p) (\<lambda>c. Inr ''tok'') st'
               (Some ''juan123'') (Some ''pw1'')
             = Response 200 (TokenBody ''tok'')
         \<and> authMiddleware
               (\<lambda>t. if t = ''tok'' then Some \<lparr>claim_id = Some 1, claim_username = None\<rparr> else None)
               st' (Some ''Bearer tok'')
             = Next u"
  using register_login_authorize_with_model
    [where name = "''juan123''" and p = "''pw1''" and st = empty_store and newId = 1
       and hash = "\<lambda>p s. CHR ''$'' # p" and s = 0 and compare = "\<lambda>p h. h = CHR ''$'' # p"
       and sign = "\<lambda>c. Inr ''tok''" and ?t0.0 = "''tok''" and t = "''tok''"
       and verify = "\<lambda>t. if t = ''tok'' then Some \<lparr>claim_id = Some 1, claim_username = None\<rparr> else None"
       and decoded = "\<lparr>claim_id = Some 1, claim_username = None\<rparr>"]
  by (simp add: empty_store_def)

text \<open>
  C7, on \<^verbatim>\<open>login\<close> as the controller has it. juan123 registers with the password pw1
  in the empty store; whatever the registration left, the login with the same pair is
  answered with 500 "Server error" and returns no token.
\<close>

theorem register_then_login_fails:
  "login compare sign
     (snd (post_users hash sign 1 s empty_store (Some ''juan123'') (Some ''pw1'')))
     (Some ''juan123'') (Some ''pw1'')
   = Response 500 (Message msg_server_error)"
  by (simp add: login_as_written falsy_def)

section \<open>Password writes\<close>

lemma only_hash_written_same: "only_hash_written hash s plain st st"
  by (simp add: only_hash_written_def list_all_iff)

lemma only_hash_written_save_user:
  "save_user (u\<lparr>user_password := hash p s\<rparr>) st = Inr st'
   \<Longrightarrow> only_hash_written hash s (Some p) st st'"
  by (auto simp: save_user_def only_hash_written_def list_all_iff split: if_splits)

lemma only_hash_written_save_new_user:
  "save_new_user newId name (hash p s) st = Inr (u, st')
   \<Longrightarrow> only_hash_written hash s (Some p) st st'"
  by (auto simp: save_new_user_def only_hash_written_def list_all_iff Let_def
      split: option.splits if_splits)

text \<open>When the stored passwords are hash outputs, a write of hashes only leaves them so.\<close>

lemma hashes_stay_hashes:
  assumes "\<forall>u\<in>set (Users st). \<exists>p s. user_password u = hash p s"
    and "only_hash_written hash s0 plain st st'"
  shows "\<forall>u\<in>set (Users st'). \<exists>p s. user_password u = hash p s"
proof
  fix u
  assume "u \<in> set (Users st')"
  with assms(2) have "u \<in> set (Users st) \<or> (\<exists>p. user_password u = hash p s0)"
    by (auto simp: only_hash_written_def list_all_iff split: option.splits)
  then show "\<exists>p s. user_password u = hash p s"
    using assms(1) by blast
qed

text \<open>
  C8. Registration, the change of a password and the reset of a password write nothing
  into a password field but the hash of the request's plaintext: after each of them, a
  stored user either stands in the store as it stood before the request, or holds as
  its password \<open>hash p s\<close>, where \<open>p\<close> is the plaintext of the request and \<open>s\<close> the salt of
  the call. This holds for every outcome of the handler, the failures included.
\<close>

theorem password_fields_hold_hashes:
  "only_hash_written hash s password st
     (snd (post_users hash sign newId s st username password))
   \<and> only_hash_written hash s newPassword st
       (snd (post_change_password hash compare s st u oldPassword newPassword))
   \<and> only_hash_written hash s newPassword' st
       (snd (post_reset_password hash s st name newPassword'))"
proof (intro conjI)
  show "only_hash_written hash s password st
          (snd (post_users hash sign newId s st username password))"
    by (auto simp: post_users_def Let_def only_hash_written_same
        split: option.splits sum.splits dest: only_hash_written_save_new_user)
next
  show "only_hash_written hash s newPassword st
          (snd (post_change_password hash compare s st u oldPassword newPassword))"
    by (auto simp: post_change_password_def only_hash_written_same
        split: option.splits sum.splits dest: only_hash_written_save_user)
next
  show "only_hash_written hash s newPassword' st
          (snd (post_reset_password hash s st name newPassword'))"
    by (auto simp: post_reset_password_def only_hash_written_same
        split: option.splits sum.splits dest: only_hash_written_save_user)
qed

end
